theory Spec2Isabelle
  imports Main "HOL-Library.Sublist"
begin

section \<open>Python values\<close>

text \<open>
  The values that \<^verbatim>\<open>json.loads\<close> produces and that the server puts into its
  responses: \<^verbatim>\<open>None\<close>, \<^verbatim>\<open>bool\<close>, \<^verbatim>\<open>int\<close> (unbounded), \<^verbatim>\<open>float\<close>,
  \<^verbatim>\<open>str\<close>, \<^verbatim>\<open>list\<close> and \<^verbatim>\<open>dict\<close> with string keys. A float is carried by the
  text that \<^verbatim>\<open>repr\<close> prints for it; the server never computes with one. A dict is an
  association list in insertion order, read with \<open>map_of\<close>; the decoder yields one entry
  per key.
\<close>

datatype pyval =
    PNone
  | PBool bool
  | PInt int
  | PFloat string
  | PStr string
  | PList "pyval list"
  | PDict "(string \<times> pyval) list"

text \<open>
  Exceptions. Every handler of the source catches \<^verbatim>\<open>Exception\<close>; one of them
  (\<^verbatim>\<open>weather_tool\<close>) tells \<^verbatim>\<open>requests.RequestException\<close> apart first. The string is
  \<^verbatim>\<open>str(e)\<close>.
\<close>

datatype exn = RequestException string | Exception string

fun str_exn :: "exn \<Rightarrow> string" where
  "str_exn (RequestException t) = t"
| "str_exn (Exception t) = t"

abbreviation sq :: string where
  "sq \<equiv> [CHR 0x27]"

fun truthy :: "pyval \<Rightarrow> bool" where
  "truthy PNone = False"
| "truthy (PBool b) = b"
| "truthy (PInt i) = (i \<noteq> 0)"
| "truthy (PFloat r) = (r \<noteq> ''0.0'' \<and> r \<noteq> ''-0.0'')"
| "truthy (PStr s) = (s \<noteq> [])"
| "truthy (PList xs) = (xs \<noteq> [])"
| "truthy (PDict kvs) = (kvs \<noteq> [])"

fun type_name :: "pyval \<Rightarrow> string" where
  "type_name PNone = ''NoneType''"
| "type_name (PBool b) = ''bool''"
| "type_name (PInt i) = ''int''"
| "type_name (PFloat r) = ''float''"
| "type_name (PStr s) = ''str''"
| "type_name (PList xs) = ''list''"
| "type_name (PDict kvs) = ''dict''"

text \<open>
  \<^verbatim>\<open>d.get(k, default)\<close>: only a dict has the attribute; on any other value the attribute
  lookup raises \<^verbatim>\<open>AttributeError\<close>.
\<close>

fun py_get :: "pyval \<Rightarrow> string \<Rightarrow> pyval \<Rightarrow> exn + pyval" where
  "py_get (PDict kvs) k dflt = Inr (case map_of kvs k of Some v \<Rightarrow> v | None \<Rightarrow> dflt)"
| "py_get v k dflt =
     Inl (Exception (sq @ type_name v @ sq @ '' object has no attribute '' @ sq @ ''get'' @ sq))"

text \<open>Decimal digits of an \<^verbatim>\<open>int\<close>, as \<^verbatim>\<open>str\<close> prints them.\<close>

function str_nat :: "nat \<Rightarrow> string" where
  "str_nat n =
     (if n < 10 then [''0123456789'' ! n]
      else str_nat (n div 10) @ [''0123456789'' ! (n mod 10)])"
  by pat_completeness auto
termination
  by (relation "measure id") auto

declare str_nat.simps [simp del]

definition str_int :: "int \<Rightarrow> string" where
  "str_int i = (if i < 0 then ''-'' @ str_nat (nat (- i)) else str_nat (nat i))"

fun join :: "string \<Rightarrow> string list \<Rightarrow> string" where
  "join sep [] = []"
| "join sep [x] = x"
| "join sep (x # y # ys) = x @ sep @ join sep (y # ys)"

text \<open>
  \<^verbatim>\<open>repr(v)\<close> and \<^verbatim>\<open>str(v)\<close> (what an f-string field prints). They differ on strings
  only: \<^verbatim>\<open>str\<close> of a string is the string, \<^verbatim>\<open>repr\<close> quotes and escapes it by the
  interpreter's Unicode tables, which is the parameter \<open>q\<close> here.
\<close>

fun py_repr :: "(string \<Rightarrow> string) \<Rightarrow> pyval \<Rightarrow> string" where
  "py_repr q PNone = ''None''"
| "py_repr q (PBool b) = (if b then ''True'' else ''False'')"
| "py_repr q (PInt i) = str_int i"
| "py_repr q (PFloat r) = r"
| "py_repr q (PStr s) = q s"
| "py_repr q (PList xs) = ''['' @ join '', '' (map (py_repr q) xs) @ '']''"
| "py_repr q (PDict kvs) =
     ''{'' @ join '', '' (map (\<lambda>(k, v). q k @ '': '' @ py_repr q v) kvs) @ ''}''"

definition py_format :: "(string \<Rightarrow> string) \<Rightarrow> pyval \<Rightarrow> string" where
  "py_format q v = (case v of PStr s \<Rightarrow> s | _ \<Rightarrow> py_repr q v)"

text \<open>
  \<^verbatim>\<open>d[k]\<close> with a string key: \<^verbatim>\<open>KeyError\<close> on a dict without the key (its text is the
  \<^verbatim>\<open>repr\<close> of the key), \<^verbatim>\<open>TypeError\<close> on every other value (wording of CPython 3.11).
\<close>

fun py_getitem :: "(string \<Rightarrow> string) \<Rightarrow> pyval \<Rightarrow> string \<Rightarrow> exn + pyval" where
  "py_getitem q (PDict kvs) k =
     (case map_of kvs k of Some v \<Rightarrow> Inr v | None \<Rightarrow> Inl (Exception (q k)))"
| "py_getitem q (PStr s) k =
     Inl (Exception (''string indices must be integers, not '' @ sq @ ''str'' @ sq))"
| "py_getitem q (PList xs) k =
     Inl (Exception ''list indices must be integers or slices, not str'')"
| "py_getitem q v k =
     Inl (Exception (sq @ type_name v @ sq @ '' object is not subscriptable''))"

section \<open>Effects\<close>

text \<open>
  What a run does, in order: the lines the generator yields and the calls that leave the
  function (registry handlers, clock, time zone database, environment, standard output,
  network). A yielded line is recorded as the response dict that
  \<^verbatim>\<open>json.dumps(response) + "\n"\<close> serialises; every response is built from decoded
  JSON values and string literals, on which \<^verbatim>\<open>json.dumps\<close> does not fail.
\<close>

datatype event =
    Yield pyval
  | ListTools
  | CallTool pyval pyval
  | DatetimeNow
  | ZoneInfo pyval
  | LoadDotenv
  | Getenv string
  | Print string
  | RequestsGet string

text \<open>A computation: the events it performed, then an exception or a value.\<close>

type_synonym 'a io = "event list \<times> (exn + 'a)"

definition ret :: "'a \<Rightarrow> 'a io" where
  "ret x = ([], Inr x)"

definition raise :: "exn \<Rightarrow> 'a io" where
  "raise e = ([], Inl e)"

definition lift :: "exn + 'a \<Rightarrow> 'a io" where
  "lift r = ([], r)"

definition perform :: "event \<Rightarrow> exn + 'a \<Rightarrow> 'a io" where
  "perform ev r = ([ev], r)"

definition yield :: "pyval \<Rightarrow> unit io" where
  "yield v = ([Yield v], Inr ())"

definition bind_io :: "'a io \<Rightarrow> ('a \<Rightarrow> 'b io) \<Rightarrow> 'b io" where
  "bind_io m f =
     (case m of
        (es, Inl e) \<Rightarrow> (es, Inl e)
      | (es, Inr x) \<Rightarrow> (case f x of (es', r) \<Rightarrow> (es @ es', r)))"

definition try_except :: "'a io \<Rightarrow> (exn \<Rightarrow> 'a io) \<Rightarrow> 'a io" where
  "try_except m h =
     (case m of
        (es, Inl e) \<Rightarrow> (case h e of (es', r) \<Rightarrow> (es @ es', r))
      | (es, Inr x) \<Rightarrow> (es, Inr x))"

fun yields :: "event list \<Rightarrow> pyval list" where
  "yields [] = []"
| "yields (Yield v # es) = v # yields es"
| "yields (ev # es) = yields es"

definition yielded :: "'a io \<Rightarrow> pyval list" where
  "yielded r = yields (fst r)"

fun is_Yield :: "event \<Rightarrow> bool" where
  "is_Yield (Yield v) = True"
| "is_Yield ev = False"

definition side_effects :: "'a io \<Rightarrow> event list" where
  "side_effects r = filter (\<lambda>ev. \<not> is_Yield ev) (fst r)"

section \<open>The interpreter and the outside world\<close>

text \<open>
  The library calls of \<^verbatim>\<open>main.py\<close> whose code is not part of the repository, as
  parameters:
  \<^item> \<open>json_loads b\<close> is \<^verbatim>\<open>json.loads(request_body.decode())\<close>;
  \<^item> \<open>repr_str s\<close> is \<^verbatim>\<open>repr\<close> of a string;
  \<^item> \<open>datetime_now\<close> is \<^verbatim>\<open>datetime.datetime.now()\<close>;
  \<^item> \<open>astimezone_ZoneInfo now tz\<close> is \<^verbatim>\<open>now.astimezone(ZoneInfo(tz))\<close>;
  \<^item> \<open>strftime now\<close> is \<^verbatim>\<open>now.strftime("%Y-%m-%d %H:%M:%S %Z%z")\<close>;
  \<^item> \<open>load_dotenv\<close> is \<^verbatim>\<open>load_dotenv()\<close>, \<open>getenv\<close> is \<^verbatim>\<open>os.getenv\<close> after it;
  \<^item> \<open>print_line s\<close> is \<^verbatim>\<open>print(s)\<close>;
  \<^item> \<open>requests_get_json url\<close> is \<^verbatim>\<open>requests.get(url, timeout=10)\<close>, then
    \<^verbatim>\<open>raise_for_status()\<close>, then \<^verbatim>\<open>resp.json()\<close>: the three calls raise into the
    same handlers with nothing between them.
  \<open>Inl\<close> is the exception the call raises. The decorators \<^verbatim>\<open>@server.list_tools()\<close>
  and \<^verbatim>\<open>@server.call_tool()\<close> register the function and return it unchanged, and
  \<^verbatim>\<open>types.Tool\<close> and \<^verbatim>\<open>types.TextContent\<close> are taken as plain constructors.
\<close>

record 't runtime =
  json_loads :: "string \<Rightarrow> exn + pyval"
  repr_str :: "string \<Rightarrow> string"
  datetime_now :: "'t"
  astimezone_ZoneInfo :: "'t \<Rightarrow> pyval \<Rightarrow> exn + 't"
  strftime :: "'t \<Rightarrow> exn + string"
  load_dotenv :: "exn + unit"
  getenv :: "string \<Rightarrow> string option"
  print_line :: "string \<Rightarrow> exn + unit"
  requests_get_json :: "string \<Rightarrow> exn + pyval"

definition py_str :: "('t, 'z) runtime_scheme \<Rightarrow> pyval \<Rightarrow> string" where
  "py_str rt v = py_format (repr_str rt) v"

section \<open>The registry\<close>

record Tool =
  name :: string
  description :: string
  inputSchema :: pyval

record TextContent =
  tc_type :: string
  tc_text :: string

text \<open>
  \<^verbatim>\<open>list_tools\<close> and \<^verbatim>\<open>call_tool\<close> are the registry: each records its own call
  (\<open>ListTools\<close>, \<open>CallTool name arguments\<close>) before it does anything else.
\<close>

definition list_tools :: "Tool list io" where
  "list_tools =
     perform ListTools (Inr
       [\<lparr>name = ''time_tool'',
         description = ''Get current time for a timezone (e.g. Asia/Kolkata)'',
         inputSchema = PDict
           [(''type'', PStr ''object''),
            (''properties'', PDict
               [(''input_timezone'', PDict
                   [(''type'', PStr ''string''),
                    (''description'', PStr ''Timezone identifier (e.g., 'Asia/Kolkata', 'America/New_York'). Optional, defaults to system timezone.'')])]),
            (''additionalProperties'', PBool False)]\<rparr>,
        \<lparr>name = ''weather_tool'',
         description = ''Provides weather info for a given location'',
         inputSchema = PDict
           [(''type'', PStr ''object''),
            (''properties'', PDict
               [(''location'', PDict
                   [(''type'', PStr ''string''),
                    (''description'', PStr ''Location to get weather for (city name, coordinates, etc.)'')])]),
            (''required'', PList [PStr ''location'']),
            (''additionalProperties'', PBool False)]\<rparr>])"

text \<open>
  \<^verbatim>\<open>time_tool\<close>. The inner handler returns from the function; \<open>Inl\<close> of the inner block
  is that early return, \<open>Inr\<close> the value of \<^verbatim>\<open>now\<close> to go on with.
\<close>

definition time_tool :: "('t, 'z) runtime_scheme \<Rightarrow> pyval \<Rightarrow> TextContent list io" where
  "time_tool rt input_timezone =
     try_except
       (bind_io (perform DatetimeNow (Inr (datetime_now rt))) (\<lambda>now.
        bind_io
          (if truthy input_timezone then
             try_except
               (bind_io (perform (ZoneInfo input_timezone)
                           (astimezone_ZoneInfo rt now input_timezone)) (\<lambda>now'.
                ret (Inr now')))
               (\<lambda>e. ret (Inl
                  [\<lparr>tc_type = ''text'',
                    tc_text = ''Invalid timezone '' @ sq @ py_str rt input_timezone @ sq
                              @ ''. Error: '' @ str_exn e\<rparr>]))
           else ret (Inr now)) (\<lambda>r.
        case r of
          Inl early \<Rightarrow> ret early
        | Inr now' \<Rightarrow>
            bind_io (lift (strftime rt now')) (\<lambda>s.
            let result = ''The current time is '' @ s @ ''.''
            in ret [\<lparr>tc_type = ''text'', tc_text = result\<rparr>]))))
       (\<lambda>e. ret [\<lparr>tc_type = ''text'', tc_text = ''Error getting time: '' @ str_exn e\<rparr>])"

definition weather_tool :: "('t, 'z) runtime_scheme \<Rightarrow> pyval \<Rightarrow> TextContent list io" where
  "weather_tool rt location =
     (if \<not> truthy location then
        ret [\<lparr>tc_type = ''text'', tc_text = ''Location parameter is required.''\<rparr>]
      else
        try_except
          (bind_io (perform LoadDotenv (load_dotenv rt)) (\<lambda>_.
           bind_io (perform (Getenv ''WEATHER_API_KEY'') (Inr (getenv rt ''WEATHER_API_KEY'')))
             (\<lambda>api_key.
           if api_key = None \<or> api_key = Some [] then
             ret [\<lparr>tc_type = ''text'',
                   tc_text = ''Weather API key not found. Please set WEATHER_API_KEY environment variable.''\<rparr>]
           else
             let url = ''http://api.weatherapi.com/v1/current.json?key=''
                       @ (case api_key of Some key \<Rightarrow> key | None \<Rightarrow> ''None'')
                       @ ''&q='' @ py_str rt location @ ''&aqi=no''
             in
             bind_io (perform (Print url) (print_line rt url)) (\<lambda>_.
             bind_io (perform (RequestsGet url) (requests_get_json rt url)) (\<lambda>body.
             bind_io (lift (py_get body ''current'' PNone)) (\<lambda>data.
             if \<not> truthy data then
               ret [\<lparr>tc_type = ''text'',
                     tc_text = ''Sorry, couldn't find weather for '' @ py_str rt location @ ''.''\<rparr>]
             else
               bind_io (lift (py_getitem (repr_str rt) data ''condition'')) (\<lambda>condition.
               bind_io (lift (py_getitem (repr_str rt) condition ''text'')) (\<lambda>condition_text.
               bind_io (lift (py_getitem (repr_str rt) data ''temp_c'')) (\<lambda>temp_c.
               let result = ''The weather in '' @ py_str rt location @ '' is ''
                            @ py_str rt condition_text @ '' at '' @ py_str rt temp_c
                            @ [CHR 0xC2, CHR 0xB0] @ ''C.''
               in ret [\<lparr>tc_type = ''text'', tc_text = result\<rparr>])))))))))
          (\<lambda>e. case e of
             RequestException t \<Rightarrow>
               ret [\<lparr>tc_type = ''text'', tc_text = ''Error fetching weather data: '' @ t\<rparr>]
           | Exception t \<Rightarrow>
               ret [\<lparr>tc_type = ''text'', tc_text = ''Error getting weather: '' @ t\<rparr>]))"

definition call_tool ::
  "('t, 'z) runtime_scheme \<Rightarrow> pyval \<Rightarrow> pyval \<Rightarrow> TextContent list io" where
  "call_tool rt tool_name arguments =
     bind_io (perform (CallTool tool_name arguments) (Inr ())) (\<lambda>_.
     if tool_name = PStr ''time_tool'' then
       bind_io (lift (py_get arguments ''input_timezone'' PNone)) (time_tool rt)
     else if tool_name = PStr ''weather_tool'' then
       bind_io (lift (py_get arguments ''location'' PNone)) (weather_tool rt)
     else
       raise (Exception (''Unknown tool: '' @ py_str rt tool_name)))"

section \<open>The dispatch engine\<close>

definition stream_generator :: "('t, 'z) runtime_scheme \<Rightarrow> string \<Rightarrow> unit io" where
  "stream_generator rt request_body =
     try_except
       (bind_io (lift (json_loads rt request_body)) (\<lambda>message.
        bind_io (lift (py_get message ''method'' PNone)) (\<lambda>method1.
        if method1 = PStr ''initialize'' then
          bind_io (lift (py_get message ''id'' PNone)) (\<lambda>id1.
          yield (PDict
            [(''jsonrpc'', PStr ''2.0''),
             (''id'', id1),
             (''result'', PDict
                [(''protocolVersion'', PStr ''2024-11-05''),
                 (''capabilities'', PDict [(''tools'', PDict [])]),
                 (''serverInfo'', PDict
                    [(''name'', PStr ''time-weather-mcp''),
                     (''version'', PStr ''1.0.0'')])])]))
        else
        bind_io (lift (py_get message ''method'' PNone)) (\<lambda>method2.
        if method2 = PStr ''tools/list'' then
          bind_io list_tools (\<lambda>tools.
          let tools_dict =
                map (\<lambda>tool. PDict
                       [(''name'', PStr (name tool)),
                        (''description'', PStr (description tool)),
                        (''inputSchema'', inputSchema tool)]) tools
          in
          bind_io (lift (py_get message ''id'' PNone)) (\<lambda>id2.
          yield (PDict
            [(''jsonrpc'', PStr ''2.0''),
             (''id'', id2),
             (''result'', PDict [(''tools'', PList tools_dict)])])))
        else
        bind_io (lift (py_get message ''method'' PNone)) (\<lambda>method3.
        if method3 = PStr ''tools/call'' then
          bind_io (lift (py_get message ''params'' (PDict []))) (\<lambda>params.
          bind_io (lift (py_get params ''name'' PNone)) (\<lambda>tool_name.
          bind_io (lift (py_get params ''arguments'' (PDict []))) (\<lambda>arguments.
          try_except
            (bind_io (call_tool rt tool_name arguments) (\<lambda>result.
             let content =
                   map (\<lambda>c. PDict [(''type'', PStr (tc_type c)), (''text'', PStr (tc_text c))])
                     result
             in
             bind_io (lift (py_get message ''id'' PNone)) (\<lambda>id3.
             yield (PDict
               [(''jsonrpc'', PStr ''2.0''),
                (''id'', id3),
                (''result'', PDict [(''content'', PList content)])]))))
            (\<lambda>e.
             bind_io (lift (py_get message ''id'' PNone)) (\<lambda>id4.
             yield (PDict
               [(''jsonrpc'', PStr ''2.0''),
                (''id'', id4),
                (''error'', PDict
                   [(''code'', PInt (- 32000)),
                    (''message'', PStr (str_exn e))])]))))))
        else
          bind_io (lift (py_get message ''id'' PNone)) (\<lambda>id5.
          bind_io (lift (py_get message ''method'' PNone)) (\<lambda>method4.
          yield (PDict
            [(''jsonrpc'', PStr ''2.0''),
             (''id'', id5),
             (''error'', PDict
                [(''code'', PInt (- 32601)),
                 (''message'', PStr (''Method not found: '' @ py_str rt method4))])]))))))))
       (\<lambda>e.
        yield (PDict
          [(''jsonrpc'', PStr ''2.0''),
           (''id'', PNone),
           (''error'', PDict
              [(''code'', PInt (- 32700)),
               (''message'', PStr (''Parse error: '' @ str_exn e))])]))"

section \<open>Envelopes and requests\<close>

text \<open>
  The two wire shapes of a response, written as the dict literals of
  \<^verbatim>\<open>stream_generator\<close>, and the payload of a successful tool call. They name the
  right-hand sides of the statements below.
\<close>

definition Result_envelope :: "pyval \<Rightarrow> pyval \<Rightarrow> pyval" where
  "Result_envelope i r = PDict [(''jsonrpc'', PStr ''2.0''), (''id'', i), (''result'', r)]"

definition Error_envelope :: "pyval \<Rightarrow> int \<Rightarrow> string \<Rightarrow> pyval" where
  "Error_envelope i c m =
     PDict [(''jsonrpc'', PStr ''2.0''), (''id'', i),
            (''error'', PDict [(''code'', PInt c), (''message'', PStr m)])]"

definition content_result :: "TextContent list \<Rightarrow> pyval" where
  "content_result cs =
     PDict [(''content'', PList
       (map (\<lambda>c. PDict [(''type'', PStr (tc_type c)), (''text'', PStr (tc_text c))]) cs))]"

definition text_result :: "string \<Rightarrow> pyval" where
  "text_result t =
     PDict [(''content'', PList [PDict [(''type'', PStr ''text''), (''text'', PStr t)]])]"

text \<open>
  Reading a value: \<open>at v path\<close> follows keys into nested dicts (\<^verbatim>\<open>None\<close> where a
  key is missing), \<open>keys\<close> lists a dict's keys in order.
\<close>

fun at :: "pyval \<Rightarrow> string list \<Rightarrow> pyval" where
  "at v [] = v"
| "at (PDict kvs) (k # ks) = (case map_of kvs k of Some v \<Rightarrow> at v ks | None \<Rightarrow> PNone)"
| "at v (k # ks) = PNone"

fun keys :: "pyval \<Rightarrow> string list" where
  "keys (PDict kvs) = map fst kvs"
| "keys v = []"

fun is_dict :: "pyval \<Rightarrow> bool" where
  "is_dict (PDict kvs) = True"
| "is_dict v = False"

fun has_key :: "pyval \<Rightarrow> string \<Rightarrow> bool" where
  "has_key (PDict kvs) k = (map_of kvs k \<noteq> None)"
| "has_key v k = False"

definition error_code :: "pyval \<Rightarrow> pyval" where
  "error_code resp = at resp [''error'', ''code'']"

text \<open>
  \<open>is_tools_call message tool_name arguments\<close>: the method is \<^verbatim>\<open>tools/call\<close> and the
  three reads of lines 222 to 224 succeed with these values, that is
  \<^verbatim>\<open>message.get("params", {})\<close> is a dict, \<^verbatim>\<open>tool_name\<close> is its \<^verbatim>\<open>name\<close>
  (\<^verbatim>\<open>None\<close> when absent) and \<^verbatim>\<open>arguments\<close> its \<^verbatim>\<open>arguments\<close> (the empty dict
  when absent).
\<close>

definition is_tools_call :: "pyval \<Rightarrow> pyval \<Rightarrow> pyval \<Rightarrow> bool" where
  "is_tools_call message tool_name arguments =
     (py_get message ''method'' PNone = Inr (PStr ''tools/call'') \<and>
      (case py_get message ''params'' (PDict []) of
         Inl e \<Rightarrow> False
       | Inr params \<Rightarrow>
           py_get params ''name'' PNone = Inr tool_name \<and>
           py_get params ''arguments'' (PDict []) = Inr arguments))"

definition params_is_mapping :: "pyval \<Rightarrow> bool" where
  "params_is_mapping message =
     (case py_get message ''params'' (PDict []) of Inl e \<Rightarrow> False | Inr params \<Rightarrow> is_dict params)"

text \<open>A computation is quiet when it yields nothing.\<close>

definition quiet :: "'a io \<Rightarrow> bool" where
  "quiet m = (yields (fst m) = [])"

section \<open>A sample runtime\<close>

text \<open>
  One concrete runtime, for evaluating the model on request bodies: the decoder knows
  the bodies listed here, with the values \<^verbatim>\<open>json.loads\<close> gives for them, and rejects
  every other body; the clock stands at a fixed local time; \<^verbatim>\<open>Asia/Kolkata\<close> is the
  only time zone key found, the empty key is rejected as \<^verbatim>\<open>ZoneInfo("")\<close> rejects it;
  no API key is set and the network is down.
\<close>

definition demo_requests :: "(string \<times> pyval) list" where
  \<open>demo_requests =
    [(''{"jsonrpc":"2.0","id":1,"method":"initialize","params":{"clientInfo":{"name":"ide"}}}'',
      PDict [(''jsonrpc'', PStr ''2.0''), (''id'', PInt 1), (''method'', PStr ''initialize''),
             (''params'', PDict [(''clientInfo'', PDict [(''name'', PStr ''ide'')])])]),
     (''{"jsonrpc":"2.0","id":"a","method":"tools/list"}'',
      PDict [(''jsonrpc'', PStr ''2.0''), (''id'', PStr ''a''), (''method'', PStr ''tools/list'')]),
     (''{"jsonrpc":"2.0","id":2,"method":"tools/call","params":{"name":"time_tool","arguments":{"input_timezone":"Not/AZone"}}}'',
      PDict [(''jsonrpc'', PStr ''2.0''), (''id'', PInt 2), (''method'', PStr ''tools/call''),
             (''params'', PDict [(''name'', PStr ''time_tool''),
                (''arguments'', PDict [(''input_timezone'', PStr ''Not/AZone'')])])]),
     (''{"jsonrpc":"2.0","id":12,"method":"tools/call","params":{"name":"time_tool","arguments":{"input_timezone":""}}}'',
      PDict [(''jsonrpc'', PStr ''2.0''), (''id'', PInt 12), (''method'', PStr ''tools/call''),
             (''params'', PDict [(''name'', PStr ''time_tool''),
                (''arguments'', PDict [(''input_timezone'', PStr '''')])])]),
     (''{"jsonrpc":"2.0","id":3,"method":"tools/call","params":{"name":"weather_tool","arguments":{}}}'',
      PDict [(''jsonrpc'', PStr ''2.0''), (''id'', PInt 3), (''method'', PStr ''tools/call''),
             (''params'', PDict [(''name'', PStr ''weather_tool''), (''arguments'', PDict [])])]),
     (''{"jsonrpc":"2.0","id":13,"method":"tools/call","params":{"name":"weather_tool"}}'',
      PDict [(''jsonrpc'', PStr ''2.0''), (''id'', PInt 13), (''method'', PStr ''tools/call''),
             (''params'', PDict [(''name'', PStr ''weather_tool'')])]),
     (''{"jsonrpc":"2.0","id":5,"method":"tools/call","params":{"name":"bogus_tool","arguments":{}}}'',
      PDict [(''jsonrpc'', PStr ''2.0''), (''id'', PInt 5), (''method'', PStr ''tools/call''),
             (''params'', PDict [(''name'', PStr ''bogus_tool''), (''arguments'', PDict [])])]),
     (''{"jsonrpc":"2.0","id":6,"method":"resources/list"}'',
      PDict [(''jsonrpc'', PStr ''2.0''), (''id'', PInt 6), (''method'', PStr ''resources/list'')]),
     (''{"jsonrpc":"2.0","id":7,"method":"tools/call","params":["time_tool"]}'',
      PDict [(''jsonrpc'', PStr ''2.0''), (''id'', PInt 7), (''method'', PStr ''tools/call''),
             (''params'', PList [PStr ''time_tool''])]),
     (''{"jsonrpc":"2.0","id":8,"method":"tools/call","params":null}'',
      PDict [(''jsonrpc'', PStr ''2.0''), (''id'', PInt 8), (''method'', PStr ''tools/call''),
             (''params'', PNone)]),
     (''[1, 2]'', PList [PInt 1, PInt 2]),
     (''{"jsonrpc":"2.0","id":10,"method":"tools/call"}'',
      PDict [(''jsonrpc'', PStr ''2.0''), (''id'', PInt 10), (''method'', PStr ''tools/call'')]),
     (''{"jsonrpc":"2.0","method":"initialize"}'',
      PDict [(''jsonrpc'', PStr ''2.0''), (''method'', PStr ''initialize'')]),
     (''{"jsonrpc":"2.0","id":14,"method":"tools/call","params":{"name":"weather_tool","arguments":null}}'',
      PDict [(''jsonrpc'', PStr ''2.0''), (''id'', PInt 14), (''method'', PStr ''tools/call''),
             (''params'', PDict [(''name'', PStr ''weather_tool''), (''arguments'', PNone)])]),
     (''{"jsonrpc":"2.0","id":15,"method":"tools/call","params":[]}'',
      PDict [(''jsonrpc'', PStr ''2.0''), (''id'', PInt 15), (''method'', PStr ''tools/call''),
             (''params'', PList [])])]\<close>

definition demo_rt :: "string runtime" where
  "demo_rt =
     \<lparr>json_loads = (\<lambda>b. case map_of demo_requests b of
                       Some v \<Rightarrow> Inr v
                     | None \<Rightarrow> Inl (Exception ''Expecting value: line 1 column 1 (char 0)'')),
      repr_str = (\<lambda>s. sq @ s @ sq),
      datetime_now = ''2026-01-01 12:00:00 '',
      astimezone_ZoneInfo = (\<lambda>now tz.
        if tz = PStr ''Asia/Kolkata'' then Inr ''2026-01-01 17:30:00 IST+0530''
        else if tz = PStr [] then
          Inl (Exception ''ZoneInfo keys must be normalized relative paths, got: '')
        else Inl (Exception (sq @ ''No time zone found with key ''
                             @ py_format (\<lambda>s. sq @ s @ sq) tz @ sq))),
      strftime = Inr,
      load_dotenv = Inr (),
      getenv = (\<lambda>k. None),
      print_line = (\<lambda>s. Inr ()),
      requests_get_json = (\<lambda>url. Inl (RequestException ''connection refused''))\<rparr>"

section \<open>Laws of the effect combinators\<close>

lemma fst_bind_io: "fst (bind_io m f) = fst m @ (case snd m of Inl e \<Rightarrow> [] | Inr x \<Rightarrow> fst (f x))"
  by (simp add: bind_io_def split: prod.splits sum.splits)

lemma snd_bind_io: "snd (bind_io m f) = (case snd m of Inl e \<Rightarrow> Inl e | Inr x \<Rightarrow> snd (f x))"
  by (simp add: bind_io_def split: prod.splits sum.splits)

lemma fst_try_except: "fst (try_except m h) = fst m @ (case snd m of Inl e \<Rightarrow> fst (h e) | Inr x \<Rightarrow> [])"
  by (simp add: try_except_def split: prod.splits sum.splits)

lemma snd_try_except: "snd (try_except m h) = (case snd m of Inl e \<Rightarrow> snd (h e) | Inr x \<Rightarrow> Inr x)"
  by (simp add: try_except_def split: prod.splits sum.splits)

lemma bind_lift_Inr: "bind_io (lift (Inr x)) f = f x"
  by (simp add: bind_io_def lift_def split: prod.splits)

lemma bind_lift_Inl: "bind_io (lift (Inl e)) f = ([], Inl e)"
  by (simp add: bind_io_def lift_def)

lemma try_lift_Inl: "try_except ([], Inl e) h = h e"
  by (simp add: try_except_def split: prod.splits)

lemma bind_perform_Inr: "bind_io (perform ev (Inr x)) f = (ev # fst (f x), snd (f x))"
  by (simp add: bind_io_def perform_def split: prod.splits)

lemma snd_perform: "snd (perform ev r) = r"
  by (simp add: perform_def)

lemma yields_append: "yields (xs @ ys) = yields xs @ yields ys"
  by (induction xs rule: yields.induct) simp_all

lemma py_get_not_dict:
  "\<not> is_dict v \<Longrightarrow>
   py_get v k d = Inl (Exception (sq @ type_name v @ sq @ '' object has no attribute '' @ sq @ ''get'' @ sq))"
  by (cases v) simp_all

lemma py_get_dict: "is_dict v \<Longrightarrow> \<exists>x. py_get v k d = Inr x"
  by (cases v) simp_all

section \<open>The routes of the dispatch engine\<close>

lemma sg_decode_failure:
  "json_loads rt body = Inl e \<Longrightarrow>
   stream_generator rt body =
     ([Yield (Error_envelope PNone (- 32700) (''Parse error: '' @ str_exn e))], Inr ())"
  by (simp add: stream_generator_def Error_envelope_def bind_lift_Inl try_lift_Inl yield_def)

lemma sg_not_dict:
  "json_loads rt body = Inr message \<Longrightarrow> \<not> is_dict message \<Longrightarrow>
   stream_generator rt body =
     ([Yield (Error_envelope PNone (- 32700)
        (''Parse error: '' @ sq @ type_name message @ sq @ '' object has no attribute ''
         @ sq @ ''get'' @ sq))], Inr ())"
  by (simp add: stream_generator_def Error_envelope_def bind_lift_Inr bind_lift_Inl try_lift_Inl
      yield_def py_get_not_dict)

lemma sg_initialize:
  "json_loads rt body = Inr message \<Longrightarrow>
   py_get message ''method'' PNone = Inr (PStr ''initialize'') \<Longrightarrow>
   py_get message ''id'' PNone = Inr i \<Longrightarrow>
   stream_generator rt body =
     ([Yield (Result_envelope i (PDict
        [(''protocolVersion'', PStr ''2024-11-05''),
         (''capabilities'', PDict [(''tools'', PDict [])]),
         (''serverInfo'', PDict
            [(''name'', PStr ''time-weather-mcp''), (''version'', PStr ''1.0.0'')])]))],
      Inr ())"
  by (simp add: stream_generator_def Result_envelope_def bind_lift_Inr yield_def try_except_def)

lemma sg_unknown_method:
  "json_loads rt body = Inr message \<Longrightarrow>
   py_get message ''method'' PNone = Inr m \<Longrightarrow>
   m \<noteq> PStr ''initialize'' \<Longrightarrow> m \<noteq> PStr ''tools/list'' \<Longrightarrow> m \<noteq> PStr ''tools/call'' \<Longrightarrow>
   py_get message ''id'' PNone = Inr i \<Longrightarrow>
   stream_generator rt body =
     ([Yield (Error_envelope i (- 32601) (''Method not found: '' @ py_str rt m))], Inr ())"
  by (simp add: stream_generator_def Error_envelope_def bind_lift_Inr yield_def try_except_def)

lemma sg_tools_list:
  "json_loads rt body = Inr message \<Longrightarrow>
   py_get message ''method'' PNone = Inr (PStr ''tools/list'') \<Longrightarrow>
   py_get message ''id'' PNone = Inr i \<Longrightarrow>
   stream_generator rt body =
     ([ListTools,
       Yield (Result_envelope i (PDict [(''tools'', PList
         (map (\<lambda>tool. PDict [(''name'', PStr (name tool)),
                             (''description'', PStr (description tool)),
                             (''inputSchema'', inputSchema tool)])
            (case snd list_tools of Inr ts \<Rightarrow> ts | Inl e \<Rightarrow> [])))]))],
      Inr ())"
  by (simp add: stream_generator_def Result_envelope_def bind_lift_Inr yield_def try_except_def
      list_tools_def bind_perform_Inr snd_perform Let_def)

lemma sg_bad_params:
  "json_loads rt body = Inr message \<Longrightarrow>
   py_get message ''method'' PNone = Inr (PStr ''tools/call'') \<Longrightarrow>
   py_get message ''params'' (PDict []) = Inr params \<Longrightarrow> \<not> is_dict params \<Longrightarrow>
   stream_generator rt body =
     ([Yield (Error_envelope PNone (- 32700)
        (''Parse error: '' @ sq @ type_name params @ sq @ '' object has no attribute ''
         @ sq @ ''get'' @ sq))], Inr ())"
  by (simp add: stream_generator_def Error_envelope_def bind_lift_Inr bind_lift_Inl try_lift_Inl
      yield_def py_get_not_dict)

lemma sg_tools_call:
  assumes loads: "json_loads rt body = Inr message"
    and call: "is_tools_call message tool_name arguments"
    and ident: "py_get message ''id'' PNone = Inr i"
  shows "stream_generator rt body =
     (fst (call_tool rt tool_name arguments) @
      [Yield (case snd (call_tool rt tool_name arguments) of
                Inr result \<Rightarrow> Result_envelope i (content_result result)
              | Inl e \<Rightarrow> Error_envelope i (- 32000) (str_exn e))],
      Inr ())"
proof -
  from call obtain params where
    m_call: "py_get message ''method'' PNone = Inr (PStr ''tools/call'')" and
    p_get: "py_get message ''params'' (PDict []) = Inr params" and
    nm: "py_get params ''name'' PNone = Inr tool_name" and
    args: "py_get params ''arguments'' (PDict []) = Inr arguments"
    by (auto simp: is_tools_call_def split: sum.splits)
  obtain es r where ct: "call_tool rt tool_name arguments = (es, r)"
    by (cases "call_tool rt tool_name arguments")
  have body: "stream_generator rt body =
      try_except
        (try_except
          (bind_io (es, r) (\<lambda>result.
             bind_io (lift (Inr i)) (\<lambda>id3.
             yield (PDict
               [(''jsonrpc'', PStr ''2.0''),
                (''id'', id3),
                (''result'', PDict [(''content'', PList
                   (map (\<lambda>c. PDict [(''type'', PStr (tc_type c)), (''text'', PStr (tc_text c))])
                      result))])]))))
          (\<lambda>e.
             bind_io (lift (Inr i)) (\<lambda>id4.
             yield (PDict
               [(''jsonrpc'', PStr ''2.0''),
                (''id'', id4),
                (''error'', PDict
                   [(''code'', PInt (- 32000)),
                    (''message'', PStr (str_exn e))])]))))
        (\<lambda>e.
          yield (PDict
            [(''jsonrpc'', PStr ''2.0''),
             (''id'', PNone),
             (''error'', PDict
                [(''code'', PInt (- 32700)),
                 (''message'', PStr (''Parse error: '' @ str_exn e))])]))"
    by (simp add: stream_generator_def bind_lift_Inr loads m_call p_get nm args ident ct Let_def)
  show ?thesis
  proof (cases r)
    case (Inl e)
    then show ?thesis
      unfolding body ct
      by (simp add: bind_io_def try_except_def yield_def lift_def Error_envelope_def)
  next
    case (Inr result)
    then show ?thesis
      unfolding body ct
      by (simp add: bind_io_def try_except_def yield_def lift_def Result_envelope_def
          content_result_def)
  qed
qed

lemma py_get_absent: "is_dict v \<Longrightarrow> \<not> has_key v k \<Longrightarrow> py_get v k d = Inr d"
  by (cases v) simp_all

lemma py_str_PStr: "py_str rt (PStr s) = s"
  by (simp add: py_str_def py_format_def)

lemma py_str_PNone: "py_str rt PNone = ''None''"
  by (simp add: py_str_def py_format_def)

lemma sublist_after: "sublist xs (ps @ xs)"
  using sublist_appendI [of xs ps "[]"] by simp

section \<open>The registry handler\<close>

lemma call_tool_unknown:
  "tool_name \<noteq> PStr ''time_tool'' \<Longrightarrow> tool_name \<noteq> PStr ''weather_tool'' \<Longrightarrow>
   call_tool rt tool_name arguments =
     ([CallTool tool_name arguments], Inl (Exception (''Unknown tool: '' @ py_str rt tool_name)))"
  by (simp add: call_tool_def bind_perform_Inr raise_def)

lemma call_tool_weather_falsy:
  "py_get arguments ''location'' PNone = Inr location \<Longrightarrow> \<not> truthy location \<Longrightarrow>
   call_tool rt (PStr ''weather_tool'') arguments =
     ([CallTool (PStr ''weather_tool'') arguments],
      Inr [\<lparr>tc_type = ''text'', tc_text = ''Location parameter is required.''\<rparr>])"
  by (simp add: call_tool_def bind_perform_Inr bind_lift_Inr weather_tool_def ret_def)

lemma time_tool_invalid:
  "truthy tz \<Longrightarrow> astimezone_ZoneInfo rt (datetime_now rt) tz = Inl e \<Longrightarrow>
   time_tool rt tz =
     ([DatetimeNow, ZoneInfo tz],
      Inr [\<lparr>tc_type = ''text'',
            tc_text = ''Invalid timezone '' @ sq @ py_str rt tz @ sq @ ''. Error: '' @ str_exn e\<rparr>])"
  by (simp add: time_tool_def perform_def lift_def ret_def try_except_def bind_io_def)

lemma time_tool_falsy:
  "\<not> truthy tz \<Longrightarrow> strftime rt (datetime_now rt) = Inr s \<Longrightarrow>
   time_tool rt tz =
     ([DatetimeNow], Inr [\<lparr>tc_type = ''text'', tc_text = ''The current time is '' @ s @ ''.''\<rparr>])"
  by (simp add: time_tool_def perform_def lift_def ret_def try_except_def bind_io_def)

lemma call_tool_time:
  "py_get arguments ''input_timezone'' PNone = Inr tz \<Longrightarrow>
   call_tool rt (PStr ''time_tool'') arguments =
     (CallTool (PStr ''time_tool'') arguments # fst (time_tool rt tz), snd (time_tool rt tz))"
  by (simp add: call_tool_def bind_perform_Inr bind_lift_Inr)

section \<open>Claims about unknown tools\<close>

text \<open>
  Claim C3. A \<^verbatim>\<open>tools/call\<close> request whose \<^verbatim>\<open>params.name\<close> is neither \<^verbatim>\<open>time_tool\<close>
  nor \<^verbatim>\<open>weather_tool\<close> is answered by one Error envelope with the request's id, code
  -32000 and the message \<^verbatim>\<open>Unknown tool: <name>\<close>, which contains the name as
  \<^verbatim>\<open>str\<close> prints it (the name itself when it is a string). \<^verbatim>\<open>params.name\<close> is read
  from \<^verbatim>\<open>params\<close> when that is a mapping or absent; whatever \<^verbatim>\<open>arguments\<close> is.
\<close>

theorem unknown_tool_error:
  assumes "json_loads rt body = Inr message"
    and "is_tools_call message tool_name arguments"
    and "tool_name \<noteq> PStr ''time_tool''"
    and "tool_name \<noteq> PStr ''weather_tool''"
    and "py_get message ''id'' PNone = Inr i"
  shows "yielded (stream_generator rt body) =
           [Error_envelope i (- 32000) (''Unknown tool: '' @ py_str rt tool_name)] \<and>
         sublist (py_str rt tool_name) (''Unknown tool: '' @ py_str rt tool_name) \<and>
         (\<forall>s. tool_name = PStr s \<longrightarrow> py_str rt tool_name = s)"
proof -
  have "yielded (stream_generator rt body) =
      [Error_envelope i (- 32000) (''Unknown tool: '' @ py_str rt tool_name)]"
    by (simp add: sg_tools_call [OF assms(1,2,5)] call_tool_unknown [OF assms(3,4)] yielded_def)
  moreover have "sublist (py_str rt tool_name) (''Unknown tool: '' @ py_str rt tool_name)"
    by (rule sublist_after)
  ultimately show ?thesis
    by (simp add: py_str_PStr)
qed

theorem unknown_tool_error_witness:
  \<open>yielded (stream_generator demo_rt
      ''{"jsonrpc":"2.0","id":5,"method":"tools/call","params":{"name":"bogus_tool","arguments":{}}}'') =
     [Error_envelope (PInt 5) (- 32000) ''Unknown tool: bogus_tool''] \<and>
   sublist ''bogus_tool'' ''Unknown tool: bogus_tool''\<close>
  using unknown_tool_error [of demo_rt
      \<open>''{"jsonrpc":"2.0","id":5,"method":"tools/call","params":{"name":"bogus_tool","arguments":{}}}''\<close>
      "PDict [(''jsonrpc'', PStr ''2.0''), (''id'', PInt 5), (''method'', PStr ''tools/call''),
             (''params'', PDict [(''name'', PStr ''bogus_tool''), (''arguments'', PDict [])])]"
      "PStr ''bogus_tool''" "PDict []" "PInt 5"]
  by (simp add: demo_rt_def demo_requests_def is_tools_call_def py_str_def py_format_def)

text \<open>
  Claim C10, as stated, fails: a \<^verbatim>\<open>params\<close> that is not a mapping has no
  \<^verbatim>\<open>name\<close> field either, and \<^verbatim>\<open>params.get("name")\<close> raises on it before the inner
  \<^verbatim>\<open>try\<close>. The request with \<^verbatim>\<open>params\<close> the empty list and id 15 is answered by
  the outer handler, with id null and code -32700, not with id 15, code -32000 and
  \<^verbatim>\<open>Unknown tool: None\<close>.
\<close>

theorem missing_tool_name_counterexample:
  \<open>json_loads demo_rt ''{"jsonrpc":"2.0","id":15,"method":"tools/call","params":[]}'' =
     Inr (PDict [(''jsonrpc'', PStr ''2.0''), (''id'', PInt 15), (''method'', PStr ''tools/call''),
                 (''params'', PList [])]) \<and>
   \<not> has_key (PList []) ''name'' \<and>
   yielded (stream_generator demo_rt
     ''{"jsonrpc":"2.0","id":15,"method":"tools/call","params":[]}'') =
     [Error_envelope PNone (- 32700)
        (''Parse error: '' @ sq @ ''list'' @ sq @ '' object has no attribute '' @ sq @ ''get'' @ sq)] \<and>
   yielded (stream_generator demo_rt
     ''{"jsonrpc":"2.0","id":15,"method":"tools/call","params":[]}'') \<noteq>
     [Error_envelope (PInt 15) (- 32000) ''Unknown tool: None'']\<close>
proof -
  let ?b = \<open>''{"jsonrpc":"2.0","id":15,"method":"tools/call","params":[]}''\<close>
  let ?m = "PDict [(''jsonrpc'', PStr ''2.0''), (''id'', PInt 15), (''method'', PStr ''tools/call''),
                 (''params'', PList [])]"
  have loads: "json_loads demo_rt ?b = Inr ?m"
    by (simp add: demo_rt_def demo_requests_def)
  have meth: "py_get ?m ''method'' PNone = Inr (PStr ''tools/call'')"
    and pars: "py_get ?m ''params'' (PDict []) = Inr (PList [])"
    and shape: "\<not> is_dict (PList [])"
    by simp_all
  from sg_bad_params [OF loads meth pars shape] loads show ?thesis
    by (simp add: yielded_def Error_envelope_def)
qed

text \<open>
  Claim C10, amended. A \<^verbatim>\<open>tools/call\<close> request whose \<^verbatim>\<open>params\<close> is a mapping without
  a \<^verbatim>\<open>name\<close> field (or that has no \<^verbatim>\<open>params\<close> at all, which reads as the empty
  mapping) is answered by one Error envelope with the request's id, code -32000 and the
  message \<^verbatim>\<open>Unknown tool: None\<close>.
\<close>

theorem missing_tool_name_error:
  assumes "json_loads rt body = Inr message"
    and "py_get message ''method'' PNone = Inr (PStr ''tools/call'')"
    and "py_get message ''params'' (PDict []) = Inr params"
    and "is_dict params"
    and "\<not> has_key params ''name''"
    and "py_get message ''id'' PNone = Inr i"
  shows "yielded (stream_generator rt body) = [Error_envelope i (- 32000) ''Unknown tool: None'']"
proof -
  from assms(4) obtain arguments where args: "py_get params ''arguments'' (PDict []) = Inr arguments"
    using py_get_dict by blast
  have nm: "py_get params ''name'' PNone = Inr PNone"
    using assms(4,5) by (rule py_get_absent)
  have call: "is_tools_call message PNone arguments"
    by (simp add: is_tools_call_def assms(2,3) nm args)
  show ?thesis
    by (simp add: sg_tools_call [OF assms(1) call assms(6)] call_tool_unknown yielded_def
        py_str_PNone)
qed

theorem missing_tool_name_error_witness:
  \<open>yielded (stream_generator demo_rt ''{"jsonrpc":"2.0","id":10,"method":"tools/call"}'') =
     [Error_envelope (PInt 10) (- 32000) ''Unknown tool: None'']\<close>
  using missing_tool_name_error [of demo_rt
      \<open>''{"jsonrpc":"2.0","id":10,"method":"tools/call"}''\<close>
      "PDict [(''jsonrpc'', PStr ''2.0''), (''id'', PInt 10), (''method'', PStr ''tools/call'')]"
      "PDict []" "PInt 10"]
  by (simp add: demo_rt_def demo_requests_def)

section \<open>Claims about the protocol routes\<close>

text \<open>
  Claim C4. A request that is a JSON object and whose \<^verbatim>\<open>method\<close> is none of
  \<^verbatim>\<open>initialize\<close>, \<^verbatim>\<open>tools/list\<close>, \<^verbatim>\<open>tools/call\<close> (also when it is absent or not a
  string) is answered by one Error envelope with the request's id, code -32601 and the
  message \<^verbatim>\<open>Method not found: <method>\<close>, which contains the method value.
\<close>

theorem unknown_method_error:
  assumes "json_loads rt body = Inr message"
    and "py_get message ''method'' PNone = Inr m"
    and "m \<noteq> PStr ''initialize''"
    and "m \<noteq> PStr ''tools/list''"
    and "m \<noteq> PStr ''tools/call''"
    and "py_get message ''id'' PNone = Inr i"
  shows "yielded (stream_generator rt body) =
           [Error_envelope i (- 32601) (''Method not found: '' @ py_str rt m)] \<and>
         sublist (py_str rt m) (''Method not found: '' @ py_str rt m) \<and>
         (\<forall>s. m = PStr s \<longrightarrow> py_str rt m = s)"
proof -
  have "stream_generator rt body =
      ([Yield (Error_envelope i (- 32601) (''Method not found: '' @ py_str rt m))], Inr ())"
    using assms by (rule sg_unknown_method)
  then have "yielded (stream_generator rt body) =
      [Error_envelope i (- 32601) (''Method not found: '' @ py_str rt m)]"
    by (simp add: yielded_def)
  moreover have "sublist (py_str rt m) (''Method not found: '' @ py_str rt m)"
    by (rule sublist_after)
  ultimately show ?thesis
    by (simp add: py_str_PStr)
qed

theorem unknown_method_error_witness:
  \<open>yielded (stream_generator demo_rt ''{"jsonrpc":"2.0","id":6,"method":"resources/list"}'') =
     [Error_envelope (PInt 6) (- 32601) ''Method not found: resources/list''] \<and>
   sublist ''resources/list'' ''Method not found: resources/list''\<close>
proof -
  let ?b = \<open>''{"jsonrpc":"2.0","id":6,"method":"resources/list"}''\<close>
  let ?m = "PDict [(''jsonrpc'', PStr ''2.0''), (''id'', PInt 6), (''method'', PStr ''resources/list'')]"
  have loads: "json_loads demo_rt ?b = Inr ?m"
    by (simp add: demo_rt_def demo_requests_def)
  have meth: "py_get ?m ''method'' PNone = Inr (PStr ''resources/list'')"
    and ident: "py_get ?m ''id'' PNone = Inr (PInt 6)"
    by simp_all
  from unknown_method_error [OF loads meth _ _ _ ident]
  show ?thesis
    by (simp add: py_str_def py_format_def)
qed

text \<open>
  Claim C5. A request with method \<^verbatim>\<open>initialize\<close> is answered by one Result envelope with
  the request's id and exactly the fixed result; nothing is assumed about \<^verbatim>\<open>params\<close>.
  The run consists of that one yield: no registry handler is called and no clock,
  environment, output or network call is made.
\<close>

theorem initialize_result:
  assumes "json_loads rt body = Inr message"
    and "py_get message ''method'' PNone = Inr (PStr ''initialize'')"
    and "py_get message ''id'' PNone = Inr i"
  shows "stream_generator rt body =
           ([Yield (Result_envelope i (PDict
               [(''protocolVersion'', PStr ''2024-11-05''),
                (''capabilities'', PDict [(''tools'', PDict [])]),
                (''serverInfo'', PDict
                   [(''name'', PStr ''time-weather-mcp''), (''version'', PStr ''1.0.0'')])]))],
            Inr ()) \<and>
         side_effects (stream_generator rt body) = []"
proof -
  have run: "stream_generator rt body =
           ([Yield (Result_envelope i (PDict
               [(''protocolVersion'', PStr ''2024-11-05''),
                (''capabilities'', PDict [(''tools'', PDict [])]),
                (''serverInfo'', PDict
                   [(''name'', PStr ''time-weather-mcp''), (''version'', PStr ''1.0.0'')])]))],
            Inr ())"
    using assms by (rule sg_initialize)
  show ?thesis
    unfolding run by (simp add: side_effects_def)
qed

theorem initialize_result_witness:
  \<open>stream_generator demo_rt
     ''{"jsonrpc":"2.0","id":1,"method":"initialize","params":{"clientInfo":{"name":"ide"}}}'' =
     ([Yield (Result_envelope (PInt 1) (PDict
         [(''protocolVersion'', PStr ''2024-11-05''),
          (''capabilities'', PDict [(''tools'', PDict [])]),
          (''serverInfo'', PDict
             [(''name'', PStr ''time-weather-mcp''), (''version'', PStr ''1.0.0'')])]))],
      Inr ()) \<and>
   side_effects (stream_generator demo_rt
     ''{"jsonrpc":"2.0","id":1,"method":"initialize","params":{"clientInfo":{"name":"ide"}}}'') = []\<close>
proof -
  let ?b = \<open>''{"jsonrpc":"2.0","id":1,"method":"initialize","params":{"clientInfo":{"name":"ide"}}}''\<close>
  let ?m = "PDict [(''jsonrpc'', PStr ''2.0''), (''id'', PInt 1), (''method'', PStr ''initialize''),
             (''params'', PDict [(''clientInfo'', PDict [(''name'', PStr ''ide'')])])]"
  have loads: "json_loads demo_rt ?b = Inr ?m"
    by (simp add: demo_rt_def demo_requests_def)
  have meth: "py_get ?m ''method'' PNone = Inr (PStr ''initialize'')"
    and ident: "py_get ?m ''id'' PNone = Inr (PInt 1)"
    by simp_all
  from initialize_result [OF loads meth ident]
  show ?thesis
    by (simp add: side_effects_def)
qed

text \<open>
  Claim C9. A body that decodes to a value that is not a JSON object (a number, string,
  list, boolean or null) is answered by one Error envelope with id null and code -32700
  whose message begins \<^verbatim>\<open>Parse error: \<close>: the \<^verbatim>\<open>AttributeError\<close> of
  \<^verbatim>\<open>message.get\<close> reaches the outer handler.
\<close>

theorem non_object_parse_error:
  assumes "json_loads rt body = Inr message"
    and "\<not> is_dict message"
  shows "stream_generator rt body =
           ([Yield (Error_envelope PNone (- 32700)
              (''Parse error: '' @ sq @ type_name message @ sq @ '' object has no attribute ''
               @ sq @ ''get'' @ sq))], Inr ()) \<and>
         prefix ''Parse error: ''
           (''Parse error: '' @ sq @ type_name message @ sq @ '' object has no attribute ''
            @ sq @ ''get'' @ sq)"
proof -
  have "py_get message ''method'' PNone =
      Inl (Exception (sq @ type_name message @ sq @ '' object has no attribute '' @ sq @ ''get'' @ sq))"
    using assms(2) by (rule py_get_not_dict)
  then have "stream_generator rt body =
           ([Yield (Error_envelope PNone (- 32700)
              (''Parse error: '' @ sq @ type_name message @ sq @ '' object has no attribute ''
               @ sq @ ''get'' @ sq))], Inr ())"
    by (simp add: stream_generator_def assms(1) bind_lift_Inr bind_lift_Inl try_lift_Inl
        yield_def Error_envelope_def)
  then show ?thesis
    by simp
qed

theorem non_object_parse_error_witness:
  "stream_generator demo_rt ''[1, 2]'' =
     ([Yield (Error_envelope PNone (- 32700)
        (''Parse error: '' @ sq @ ''list'' @ sq @ '' object has no attribute '' @ sq @ ''get'' @ sq))],
      Inr ())"
proof -
  have loads: "json_loads demo_rt ''[1, 2]'' = Inr (PList [PInt 1, PInt 2])"
    by (simp add: demo_rt_def demo_requests_def)
  have shape: "\<not> is_dict (PList [PInt 1, PInt 2])"
    by simp
  from non_object_parse_error [OF loads shape]
  show ?thesis
    by simp
qed

section \<open>Claims about the tools\<close>

lemma call_tool_weather_not_dict:
  "\<not> is_dict arguments \<Longrightarrow>
   call_tool rt (PStr ''weather_tool'') arguments =
     ([CallTool (PStr ''weather_tool'') arguments],
      Inl (Exception (sq @ type_name arguments @ sq @ '' object has no attribute ''
                      @ sq @ ''get'' @ sq)))"
  by (simp add: call_tool_def bind_perform_Inr bind_lift_Inl py_get_not_dict)

text \<open>
  Claim C8, as stated, fails: an \<^verbatim>\<open>arguments\<close> that is not a mapping gives no
  location either, and \<^verbatim>\<open>arguments.get("location")\<close> raises on it inside
  \<^verbatim>\<open>call_tool\<close>. The request with \<^verbatim>\<open>arguments\<close> null and id 14 is answered by the
  inner handler with an Error envelope of code -32000, not with a Result.
\<close>

theorem weather_location_counterexample:
  \<open>json_loads demo_rt
     ''{"jsonrpc":"2.0","id":14,"method":"tools/call","params":{"name":"weather_tool","arguments":null}}'' =
     Inr (PDict [(''jsonrpc'', PStr ''2.0''), (''id'', PInt 14), (''method'', PStr ''tools/call''),
                 (''params'', PDict [(''name'', PStr ''weather_tool''), (''arguments'', PNone)])]) \<and>
   \<not> has_key PNone ''location'' \<and>
   yielded (stream_generator demo_rt
     ''{"jsonrpc":"2.0","id":14,"method":"tools/call","params":{"name":"weather_tool","arguments":null}}'') =
     [Error_envelope (PInt 14) (- 32000)
        (sq @ ''NoneType'' @ sq @ '' object has no attribute '' @ sq @ ''get'' @ sq)] \<and>
   yielded (stream_generator demo_rt
     ''{"jsonrpc":"2.0","id":14,"method":"tools/call","params":{"name":"weather_tool","arguments":null}}'') \<noteq>
     [Result_envelope (PInt 14) (text_result ''Location parameter is required.'')]\<close>
proof -
  let ?b = \<open>''{"jsonrpc":"2.0","id":14,"method":"tools/call","params":{"name":"weather_tool","arguments":null}}''\<close>
  let ?m = "PDict [(''jsonrpc'', PStr ''2.0''), (''id'', PInt 14), (''method'', PStr ''tools/call''),
                 (''params'', PDict [(''name'', PStr ''weather_tool''), (''arguments'', PNone)])]"
  have loads: "json_loads demo_rt ?b = Inr ?m"
    by (simp add: demo_rt_def demo_requests_def)
  have call: "is_tools_call ?m (PStr ''weather_tool'') PNone"
    by (simp add: is_tools_call_def)
  have ident: "py_get ?m ''id'' PNone = Inr (PInt 14)"
    and shape: "\<not> is_dict PNone"
    by simp_all
  have "yielded (stream_generator demo_rt ?b) =
     [Error_envelope (PInt 14) (- 32000)
        (sq @ ''NoneType'' @ sq @ '' object has no attribute '' @ sq @ ''get'' @ sq)]"
    by (simp add: sg_tools_call [OF loads call ident] call_tool_weather_not_dict [OF shape]
        yielded_def)
  with loads show ?thesis
    by (simp add: Error_envelope_def Result_envelope_def)
qed

text \<open>
  Claim C8, amended. A \<^verbatim>\<open>tools/call\<close> request naming \<^verbatim>\<open>weather_tool\<close> whose
  \<^verbatim>\<open>arguments\<close> is a mapping in which the location is falsy (omitted, so that
  \<^verbatim>\<open>arguments.get("location")\<close> is \<^verbatim>\<open>None\<close>, or the empty string), also when
  \<^verbatim>\<open>params.arguments\<close> is absent and defaults to the empty mapping, is answered by a
  Result envelope with the single text item \<^verbatim>\<open>Location parameter is required.\<close>; the
  only call made is the registry handler.
\<close>

theorem weather_location_required:
  assumes "json_loads rt body = Inr message"
    and "is_tools_call message (PStr ''weather_tool'') arguments"
    and "is_dict arguments"
    and "py_get arguments ''location'' PNone = Inr location"
    and "\<not> truthy location"
    and "py_get message ''id'' PNone = Inr i"
  shows "stream_generator rt body =
           ([CallTool (PStr ''weather_tool'') arguments,
             Yield (Result_envelope i (text_result ''Location parameter is required.''))],
            Inr ())"
  by (simp add: sg_tools_call [OF assms(1,2,6)] call_tool_weather_falsy [OF assms(4,5)]
      content_result_def text_result_def)

theorem weather_location_required_witness:
  \<open>stream_generator demo_rt
     ''{"jsonrpc":"2.0","id":13,"method":"tools/call","params":{"name":"weather_tool"}}'' =
     ([CallTool (PStr ''weather_tool'') (PDict []),
       Yield (Result_envelope (PInt 13) (text_result ''Location parameter is required.''))],
      Inr ())\<close>
proof -
  let ?b = \<open>''{"jsonrpc":"2.0","id":13,"method":"tools/call","params":{"name":"weather_tool"}}''\<close>
  let ?m = "PDict [(''jsonrpc'', PStr ''2.0''), (''id'', PInt 13), (''method'', PStr ''tools/call''),
             (''params'', PDict [(''name'', PStr ''weather_tool'')])]"
  have loads: "json_loads demo_rt ?b = Inr ?m"
    by (simp add: demo_rt_def demo_requests_def)
  have call: "is_tools_call ?m (PStr ''weather_tool'') (PDict [])"
    by (simp add: is_tools_call_def)
  have mapping: "is_dict (PDict [])"
    and loc: "py_get (PDict []) ''location'' PNone = Inr PNone"
    and falsy: "\<not> truthy PNone"
    and ident: "py_get ?m ''id'' PNone = Inr (PInt 13)"
    by simp_all
  from weather_location_required [OF loads call mapping loc falsy ident]
  show ?thesis
    by simp
qed

text \<open>
  Claim C6. A request with method \<^verbatim>\<open>tools/list\<close> is answered by one Result envelope
  whose \<^verbatim>\<open>result.tools\<close> holds exactly two descriptors, \<^verbatim>\<open>time_tool\<close> then
  \<^verbatim>\<open>weather_tool\<close>, each a dict with the keys name, description, inputSchema.
  \<^verbatim>\<open>time_tool\<close> has the single string property \<^verbatim>\<open>input_timezone\<close> and no
  \<^verbatim>\<open>required\<close> list; \<^verbatim>\<open>weather_tool\<close> has the single string property \<^verbatim>\<open>location\<close>,
  which is required.
\<close>

theorem tools_list_result:
  assumes "json_loads rt body = Inr message"
    and "py_get message ''method'' PNone = Inr (PStr ''tools/list'')"
    and "py_get message ''id'' PNone = Inr i"
  shows "\<exists>t1 t2.
           yielded (stream_generator rt body) =
             [Result_envelope i (PDict [(''tools'', PList [t1, t2])])] \<and>
           keys t1 = [''name'', ''description'', ''inputSchema''] \<and>
           keys t2 = [''name'', ''description'', ''inputSchema''] \<and>
           at t1 [''name''] = PStr ''time_tool'' \<and>
           at t2 [''name''] = PStr ''weather_tool'' \<and>
           keys (at t1 [''inputSchema'', ''properties'']) = [''input_timezone''] \<and>
           at t1 [''inputSchema'', ''properties'', ''input_timezone'', ''type''] = PStr ''string'' \<and>
           \<not> has_key (at t1 [''inputSchema'']) ''required'' \<and>
           keys (at t2 [''inputSchema'', ''properties'']) = [''location''] \<and>
           at t2 [''inputSchema'', ''properties'', ''location'', ''type''] = PStr ''string'' \<and>
           at t2 [''inputSchema'', ''required''] = PList [PStr ''location'']"
proof -
  obtain t1 t2 where
    tools: "map (\<lambda>tool. PDict [(''name'', PStr (name tool)),
                              (''description'', PStr (description tool)),
                              (''inputSchema'', inputSchema tool)])
              (case snd list_tools of Inr ts \<Rightarrow> ts | Inl e \<Rightarrow> []) = [t1, t2]" and
    t1: "t1 = PDict [(''name'', PStr ''time_tool''),
                     (''description'', PStr (description (hd (case snd list_tools of Inr ts \<Rightarrow> ts | Inl e \<Rightarrow> [])))),
                     (''inputSchema'', inputSchema (hd (case snd list_tools of Inr ts \<Rightarrow> ts | Inl e \<Rightarrow> [])))]" and
    t2: "t2 = PDict [(''name'', PStr ''weather_tool''),
                     (''description'', PStr (description (last (case snd list_tools of Inr ts \<Rightarrow> ts | Inl e \<Rightarrow> [])))),
                     (''inputSchema'', inputSchema (last (case snd list_tools of Inr ts \<Rightarrow> ts | Inl e \<Rightarrow> [])))]"
    by (simp add: list_tools_def snd_perform)
  have run: "yielded (stream_generator rt body) =
      [Result_envelope i (PDict [(''tools'', PList [t1, t2])])]"
    by (simp add: sg_tools_list [OF assms] yielded_def tools)
  have schema1: "inputSchema (hd (case snd list_tools of Inr ts \<Rightarrow> ts | Inl e \<Rightarrow> [])) =
      PDict
        [(''type'', PStr ''object''),
         (''properties'', PDict
            [(''input_timezone'', PDict
                [(''type'', PStr ''string''),
                 (''description'', PStr ''Timezone identifier (e.g., 'Asia/Kolkata', 'America/New_York'). Optional, defaults to system timezone.'')])]),
         (''additionalProperties'', PBool False)]"
    by (simp add: list_tools_def snd_perform)
  have schema2: "inputSchema (last (case snd list_tools of Inr ts \<Rightarrow> ts | Inl e \<Rightarrow> [])) =
      PDict
        [(''type'', PStr ''object''),
         (''properties'', PDict
            [(''location'', PDict
                [(''type'', PStr ''string''),
                 (''description'', PStr ''Location to get weather for (city name, coordinates, etc.)'')])]),
         (''required'', PList [PStr ''location'']),
         (''additionalProperties'', PBool False)]"
    by (simp add: list_tools_def snd_perform)
  have "keys t1 = [''name'', ''description'', ''inputSchema'']"
    and "keys t2 = [''name'', ''description'', ''inputSchema'']"
    and "at t1 [''name''] = PStr ''time_tool''"
    and "at t2 [''name''] = PStr ''weather_tool''"
    by (simp_all add: t1 t2)
  moreover have "keys (at t1 [''inputSchema'', ''properties'']) = [''input_timezone'']"
    and "at t1 [''inputSchema'', ''properties'', ''input_timezone'', ''type''] = PStr ''string''"
    and "\<not> has_key (at t1 [''inputSchema'']) ''required''"
    by (simp_all add: t1 schema1)
  moreover have "keys (at t2 [''inputSchema'', ''properties'']) = [''location'']"
    and "at t2 [''inputSchema'', ''properties'', ''location'', ''type''] = PStr ''string''"
    and "at t2 [''inputSchema'', ''required''] = PList [PStr ''location'']"
    by (simp_all add: t2 schema2)
  ultimately show ?thesis
    using run by blast
qed

theorem tools_list_result_witness:
  \<open>\<exists>t1 t2.
     yielded (stream_generator demo_rt ''{"jsonrpc":"2.0","id":"a","method":"tools/list"}'') =
       [Result_envelope (PStr ''a'') (PDict [(''tools'', PList [t1, t2])])] \<and>
     at t1 [''name''] = PStr ''time_tool'' \<and>
     at t2 [''name''] = PStr ''weather_tool'' \<and>
     at t2 [''inputSchema'', ''required''] = PList [PStr ''location'']\<close>
proof -
  let ?b = \<open>''{"jsonrpc":"2.0","id":"a","method":"tools/list"}''\<close>
  let ?m = "PDict [(''jsonrpc'', PStr ''2.0''), (''id'', PStr ''a''), (''method'', PStr ''tools/list'')]"
  have loads: "json_loads demo_rt ?b = Inr ?m"
    by (simp add: demo_rt_def demo_requests_def)
  have meth: "py_get ?m ''method'' PNone = Inr (PStr ''tools/list'')"
    and ident: "py_get ?m ''id'' PNone = Inr (PStr ''a'')"
    by simp_all
  from tools_list_result [OF loads meth ident]
  show ?thesis
    by blast
qed

section \<open>The clock tool\<close>

lemma time_tool_returns_one: "\<exists>c. snd (time_tool rt tz) = Inr [c]"
  by (simp add: time_tool_def fst_bind_io snd_bind_io fst_try_except snd_try_except
      ret_def lift_def perform_def split: sum.splits)

text \<open>
  Claim C7, as stated, fails: the guard \<^verbatim>\<open>if input_timezone:\<close> skips a falsy
  argument. The empty string is not a time zone key (\<^verbatim>\<open>ZoneInfo("")\<close> raises), yet
  the request is answered with the local time, not with \<^verbatim>\<open>Invalid timezone ''\<close>.
\<close>

theorem invalid_timezone_counterexample:
  \<open>json_loads demo_rt
     ''{"jsonrpc":"2.0","id":12,"method":"tools/call","params":{"name":"time_tool","arguments":{"input_timezone":""}}}'' =
     Inr (PDict [(''jsonrpc'', PStr ''2.0''), (''id'', PInt 12), (''method'', PStr ''tools/call''),
                 (''params'', PDict [(''name'', PStr ''time_tool''),
                    (''arguments'', PDict [(''input_timezone'', PStr '''')])])]) \<and>
   astimezone_ZoneInfo demo_rt (datetime_now demo_rt) (PStr '''') =
     Inl (Exception ''ZoneInfo keys must be normalized relative paths, got: '') \<and>
   yielded (stream_generator demo_rt
     ''{"jsonrpc":"2.0","id":12,"method":"tools/call","params":{"name":"time_tool","arguments":{"input_timezone":""}}}'') =
     [Result_envelope (PInt 12) (text_result ''The current time is 2026-01-01 12:00:00 .'')] \<and>
   \<not> prefix (''Invalid timezone '' @ sq @ '''' @ sq) ''The current time is 2026-01-01 12:00:00 .''\<close>
proof -
  let ?b = \<open>''{"jsonrpc":"2.0","id":12,"method":"tools/call","params":{"name":"time_tool","arguments":{"input_timezone":""}}}''\<close>
  let ?a = "PDict [(''input_timezone'', PStr '''')]"
  let ?m = "PDict [(''jsonrpc'', PStr ''2.0''), (''id'', PInt 12), (''method'', PStr ''tools/call''),
                 (''params'', PDict [(''name'', PStr ''time_tool''), (''arguments'', ?a)])]"
  have loads: "json_loads demo_rt ?b = Inr ?m"
    by (simp add: demo_rt_def demo_requests_def)
  have call: "is_tools_call ?m (PStr ''time_tool'') ?a"
    by (simp add: is_tools_call_def)
  have ident: "py_get ?m ''id'' PNone = Inr (PInt 12)"
    by simp
  have tz: "py_get ?a ''input_timezone'' PNone = Inr (PStr '''')"
    by simp
  have clock: "strftime demo_rt (datetime_now demo_rt) = Inr ''2026-01-01 12:00:00 ''"
    by (simp add: demo_rt_def)
  have tool: "time_tool demo_rt (PStr '''') =
      ([DatetimeNow],
       Inr [\<lparr>tc_type = ''text'', tc_text = ''The current time is 2026-01-01 12:00:00 .''\<rparr>])"
    using time_tool_falsy [OF _ clock, of "PStr ''''"] by simp
  have "yielded (stream_generator demo_rt ?b) =
      [Result_envelope (PInt 12) (text_result ''The current time is 2026-01-01 12:00:00 .'')]"
    by (simp add: sg_tools_call [OF loads call ident] call_tool_time [OF tz] tool yielded_def
        content_result_def text_result_def)
  moreover have "astimezone_ZoneInfo demo_rt (datetime_now demo_rt) (PStr '''') =
      Inl (Exception ''ZoneInfo keys must be normalized relative paths, got: '')"
    by (simp add: demo_rt_def)
  ultimately show ?thesis
    using loads by simp
qed

text \<open>
  Claim C7, amended. A \<^verbatim>\<open>tools/call\<close> request naming \<^verbatim>\<open>time_tool\<close> with a truthy
  (for a string: non-empty) \<^verbatim>\<open>input_timezone\<close> on which
  \<^verbatim>\<open>now.astimezone(ZoneInfo(input_timezone))\<close> raises is answered by a Result envelope
  with a single text item that starts with \<^verbatim>\<open>Invalid timezone '<tz>'\<close>; and
  \<^verbatim>\<open>time_tool\<close> returns one item, raising nothing, on every input.
\<close>

theorem invalid_timezone_reported:
  assumes "json_loads (rt :: ('t, 'z) runtime_scheme) body = Inr message"
    and "is_tools_call message (PStr ''time_tool'') arguments"
    and "py_get arguments ''input_timezone'' PNone = Inr tz"
    and "truthy tz"
    and "astimezone_ZoneInfo rt (datetime_now rt) tz = Inl e"
    and "py_get message ''id'' PNone = Inr i"
  shows "yielded (stream_generator rt body) =
           [Result_envelope i (text_result
              (''Invalid timezone '' @ sq @ py_str rt tz @ sq @ ''. Error: '' @ str_exn e))] \<and>
         prefix (''Invalid timezone '' @ sq @ py_str rt tz @ sq)
           (''Invalid timezone '' @ sq @ py_str rt tz @ sq @ ''. Error: '' @ str_exn e) \<and>
         (\<forall>(rt' :: ('t, 'z) runtime_scheme) v. \<exists>c. snd (time_tool rt' v) = Inr [c])"
proof -
  have "yielded (stream_generator rt body) =
           [Result_envelope i (text_result
              (''Invalid timezone '' @ sq @ py_str rt tz @ sq @ ''. Error: '' @ str_exn e))]"
    by (simp add: sg_tools_call [OF assms(1,2,6)] call_tool_time [OF assms(3)]
        time_tool_invalid [OF assms(4,5)] yielded_def content_result_def text_result_def)
  then show ?thesis
    by (simp add: time_tool_returns_one)
qed

theorem invalid_timezone_reported_witness:
  \<open>yielded (stream_generator demo_rt
     ''{"jsonrpc":"2.0","id":2,"method":"tools/call","params":{"name":"time_tool","arguments":{"input_timezone":"Not/AZone"}}}'') =
     [Result_envelope (PInt 2) (text_result
        (''Invalid timezone '' @ sq @ ''Not/AZone'' @ sq @ ''. Error: '' @ sq
         @ ''No time zone found with key Not/AZone'' @ sq))]\<close>
proof -
  let ?b = \<open>''{"jsonrpc":"2.0","id":2,"method":"tools/call","params":{"name":"time_tool","arguments":{"input_timezone":"Not/AZone"}}}''\<close>
  let ?a = "PDict [(''input_timezone'', PStr ''Not/AZone'')]"
  let ?m = "PDict [(''jsonrpc'', PStr ''2.0''), (''id'', PInt 2), (''method'', PStr ''tools/call''),
                 (''params'', PDict [(''name'', PStr ''time_tool''), (''arguments'', ?a)])]"
  have loads: "json_loads demo_rt ?b = Inr ?m"
    by (simp add: demo_rt_def demo_requests_def)
  have call: "is_tools_call ?m (PStr ''time_tool'') ?a"
    by (simp add: is_tools_call_def)
  have tz: "py_get ?a ''input_timezone'' PNone = Inr (PStr ''Not/AZone'')"
    and nonempty: "truthy (PStr ''Not/AZone'')"
    and ident: "py_get ?m ''id'' PNone = Inr (PInt 2)"
    by simp_all
  have unresolved: "astimezone_ZoneInfo demo_rt (datetime_now demo_rt) (PStr ''Not/AZone'') =
      Inl (Exception (sq @ ''No time zone found with key Not/AZone'' @ sq))"
    by (simp add: demo_rt_def py_format_def)
  from invalid_timezone_reported [OF loads call tz nonempty unresolved ident]
  show ?thesis
    by (simp add: py_str_def py_format_def)
qed

section \<open>Handlers do not yield\<close>

lemma quiet_ret: "quiet (ret x)"
  and quiet_raise: "quiet (raise e)"
  and quiet_lift: "quiet (lift r)"
  by (simp_all add: quiet_def ret_def raise_def lift_def)

lemma quiet_perform: "\<not> is_Yield ev \<Longrightarrow> quiet (perform ev r)"
  by (cases ev) (simp_all add: quiet_def perform_def)

lemma quiet_bind: "quiet m \<Longrightarrow> (\<And>x. quiet (f x)) \<Longrightarrow> quiet (bind_io m f)"
  by (simp add: quiet_def fst_bind_io yields_append split: sum.splits)

lemma quiet_try: "quiet m \<Longrightarrow> (\<And>e. quiet (h e)) \<Longrightarrow> quiet (try_except m h)"
  by (simp add: quiet_def fst_try_except yields_append split: sum.splits)

lemma quiet_if: "(b \<Longrightarrow> quiet m) \<Longrightarrow> (\<not> b \<Longrightarrow> quiet n) \<Longrightarrow> quiet (if b then m else n)"
  by simp

lemma quiet_case_sum: "(\<And>a. quiet (f a)) \<Longrightarrow> (\<And>b. quiet (g b)) \<Longrightarrow> quiet (case_sum f g r)"
  by (cases r) simp_all

lemma quiet_case_exn: "(\<And>a. quiet (f a)) \<Longrightarrow> (\<And>b. quiet (g b)) \<Longrightarrow> quiet (case_exn f g e)"
  by (cases e) simp_all

lemmas quiet_intros = quiet_ret quiet_raise quiet_lift quiet_perform quiet_bind quiet_try
  quiet_if quiet_case_sum quiet_case_exn

lemma weather_tool_quiet: "quiet (weather_tool rt location)"
  unfolding weather_tool_def Let_def
  by (intro quiet_intros) simp_all

lemma time_tool_quiet: "quiet (time_tool rt tz)"
  unfolding time_tool_def Let_def
  by (intro quiet_intros) simp_all

lemma call_tool_quiet: "quiet (call_tool rt tool_name arguments)"
  unfolding call_tool_def
  by (intro quiet_intros time_tool_quiet weather_tool_quiet) simp_all

section \<open>Every decoded request takes one of the routes\<close>

lemma error_code_Error: "error_code (Error_envelope i c t) = PInt c"
  by (simp add: error_code_def Error_envelope_def)

lemma error_code_Result: "error_code (Result_envelope i r) = PNone"
  by (simp add: error_code_def Result_envelope_def)



lemma sg_routes:
  assumes loads: "json_loads rt body = Inr message"
  shows "(\<not> is_dict message \<and>
            (\<exists>t. yielded (stream_generator rt body) = [Error_envelope PNone (- 32700) t])) \<or>
         (is_dict message \<and>
            py_get message ''method'' PNone = Inr (PStr ''tools/call'') \<and>
            \<not> params_is_mapping message \<and>
            (\<exists>t. yielded (stream_generator rt body) = [Error_envelope PNone (- 32700) t])) \<or>
         (is_dict message \<and>
            (py_get message ''method'' PNone = Inr (PStr ''tools/call'') \<longrightarrow>
               params_is_mapping message) \<and>
            (\<exists>i. py_get message ''id'' PNone = Inr i \<and>
               ((\<exists>r. yielded (stream_generator rt body) = [Result_envelope i r]) \<or>
                (\<exists>t. yielded (stream_generator rt body) = [Error_envelope i (- 32000) t]) \<or>
                (\<exists>t. yielded (stream_generator rt body) = [Error_envelope i (- 32601) t]))))"
proof (cases "is_dict message")
  case False
  from sg_not_dict [OF loads False] show ?thesis
    using False by (auto simp: yielded_def)
next
  case True
  obtain m where meth: "py_get message ''method'' PNone = Inr m"
    using py_get_dict [OF True] by blast
  obtain i where ident: "py_get message ''id'' PNone = Inr i"
    using py_get_dict [OF True] by blast
  consider (init) "m = PStr ''initialize''" | (list) "m = PStr ''tools/list''"
    | (call) "m = PStr ''tools/call''"
    | (other) "m \<noteq> PStr ''initialize''" "m \<noteq> PStr ''tools/list''" "m \<noteq> PStr ''tools/call''"
    by blast
  then show ?thesis
  proof cases
    case init
    from sg_initialize [OF loads meth [unfolded init] ident] show ?thesis
      using True meth ident init by (auto simp: yielded_def)
  next
    case list
    from sg_tools_list [OF loads meth [unfolded list] ident] show ?thesis
      using True meth ident list by (auto simp: yielded_def)
  next
    case other
    from sg_unknown_method [OF loads meth other ident] show ?thesis
      using True meth ident other by (auto simp: yielded_def)
  next
    case call
    note meth' = meth [unfolded call]
    obtain params where pars: "py_get message ''params'' (PDict []) = Inr params"
      using py_get_dict [OF True] by blast
    show ?thesis
    proof (cases "is_dict params")
      case False
      from sg_bad_params [OF loads meth' pars False] show ?thesis
        using True meth' pars False by (auto simp: yielded_def params_is_mapping_def)
    next
      case pdict: True
      obtain tool_name where nm: "py_get params ''name'' PNone = Inr tool_name"
        using py_get_dict [OF pdict] by blast
      obtain arguments where args: "py_get params ''arguments'' (PDict []) = Inr arguments"
        using py_get_dict [OF pdict] by blast
      have tc: "is_tools_call message tool_name arguments"
        by (simp add: is_tools_call_def meth' pars nm args)
      have mapping: "params_is_mapping message"
        by (simp add: params_is_mapping_def pars pdict)
      have run: "yielded (stream_generator rt body) =
          [case snd (call_tool rt tool_name arguments) of
             Inr result \<Rightarrow> Result_envelope i (content_result result)
           | Inl e \<Rightarrow> Error_envelope i (- 32000) (str_exn e)]"
        using call_tool_quiet [of rt tool_name arguments]
        by (simp add: sg_tools_call [OF loads tc ident] yielded_def yields_append quiet_def)
      show ?thesis
      proof (cases "snd (call_tool rt tool_name arguments)")
        case (Inl e)
        with run True mapping ident show ?thesis by auto
      next
        case (Inr result)
        with run True mapping ident show ?thesis by auto
      qed
    qed
  qed
qed


section \<open>Claims about the envelope invariants\<close>




text \<open>
  Claim C2, as stated, fails in its second half: a body that decodes to a JSON object
  whose \<^verbatim>\<open>params\<close> is null is answered with code -32700 as well, because the outer
  handler catches the \<^verbatim>\<open>AttributeError\<close> of \<^verbatim>\<open>params.get\<close>.
\<close>

theorem parse_error_only_counterexample:
  \<open>json_loads demo_rt ''{"jsonrpc":"2.0","id":8,"method":"tools/call","params":null}'' =
     Inr (PDict [(''jsonrpc'', PStr ''2.0''), (''id'', PInt 8), (''method'', PStr ''tools/call''),
                 (''params'', PNone)]) \<and>
   yielded (stream_generator demo_rt
     ''{"jsonrpc":"2.0","id":8,"method":"tools/call","params":null}'') =
     [Error_envelope PNone (- 32700)
        (''Parse error: '' @ sq @ ''NoneType'' @ sq @ '' object has no attribute '' @ sq @ ''get'' @ sq)] \<and>
   error_code (Error_envelope PNone (- 32700)
        (''Parse error: '' @ sq @ ''NoneType'' @ sq @ '' object has no attribute '' @ sq @ ''get'' @ sq)) =
     PInt (- 32700)\<close>
proof -
  let ?b = \<open>''{"jsonrpc":"2.0","id":8,"method":"tools/call","params":null}''\<close>
  let ?m = "PDict [(''jsonrpc'', PStr ''2.0''), (''id'', PInt 8), (''method'', PStr ''tools/call''),
                 (''params'', PNone)]"
  have loads: "json_loads demo_rt ?b = Inr ?m"
    by (simp add: demo_rt_def demo_requests_def)
  have meth: "py_get ?m ''method'' PNone = Inr (PStr ''tools/call'')"
    and pars: "py_get ?m ''params'' (PDict []) = Inr PNone"
    and shape: "\<not> is_dict PNone"
    by simp_all
  from sg_bad_params [OF loads meth pars shape] loads show ?thesis
    by (simp add: yielded_def error_code_Error)
qed

text \<open>
  Claim C2, amended. Every body that fails to decode is answered by exactly one Error
  envelope with id null, code -32700 and a message that begins \<^verbatim>\<open>Parse error: \<close>. An
  envelope with code -32700 is emitted only when decoding fails, or the decoded value is
  not a JSON object, or the method is \<^verbatim>\<open>tools/call\<close> and \<^verbatim>\<open>params\<close> is present and not
  a mapping; the routes initialize, tools/list, tools/call with a mapping and unknown
  method never produce it.
\<close>

theorem parse_error_envelope:
  "(\<forall>e. json_loads rt body = Inl e \<longrightarrow>
      stream_generator rt body =
        ([Yield (Error_envelope PNone (- 32700) (''Parse error: '' @ str_exn e))], Inr ()) \<and>
      prefix ''Parse error: '' (''Parse error: '' @ str_exn e)) \<and>
   (\<forall>resp \<in> set (yielded (stream_generator rt body)).
      error_code resp = PInt (- 32700) \<longrightarrow>
      (case json_loads rt body of
         Inl e \<Rightarrow> True
       | Inr message \<Rightarrow>
           \<not> is_dict message \<or>
           (py_get message ''method'' PNone = Inr (PStr ''tools/call'') \<and>
            \<not> params_is_mapping message)))"
proof (intro conjI allI impI ballI)
  fix e assume "json_loads rt body = Inl e"
  then show "stream_generator rt body =
        ([Yield (Error_envelope PNone (- 32700) (''Parse error: '' @ str_exn e))], Inr ())"
    by (rule sg_decode_failure)
next
  fix e show "prefix ''Parse error: '' (''Parse error: '' @ str_exn e)"
    by simp
next
  fix resp
  assume mem: "resp \<in> set (yielded (stream_generator rt body))"
    and code: "error_code resp = PInt (- 32700)"
  show "case json_loads rt body of
         Inl e \<Rightarrow> True
       | Inr message \<Rightarrow>
           \<not> is_dict message \<or>
           (py_get message ''method'' PNone = Inr (PStr ''tools/call'') \<and>
            \<not> params_is_mapping message)"
  proof (cases "json_loads rt body")
    case (Inl e)
    then show ?thesis by simp
  next
    case (Inr message)
    from sg_routes [OF Inr] mem code show ?thesis
      by (auto simp: Inr error_code_Error error_code_Result)
  qed
qed

theorem parse_error_envelope_witness:
  \<open>json_loads demo_rt ''not json'' = Inl (Exception ''Expecting value: line 1 column 1 (char 0)'') \<and>
   stream_generator demo_rt ''not json'' =
     ([Yield (Error_envelope PNone (- 32700)
         ''Parse error: Expecting value: line 1 column 1 (char 0)'')], Inr ())\<close>
proof -
  have loads: \<open>json_loads demo_rt ''not json'' =
      Inl (Exception ''Expecting value: line 1 column 1 (char 0)'')\<close>
    by (simp add: demo_rt_def demo_requests_def)
  from parse_error_envelope [of demo_rt \<open>''not json''\<close>] loads show ?thesis
    by simp
qed

end
